theory Spec2Isabelle
  imports Complex_Main
begin

section \<open>Recommendation microservice: data model\<close>

text \<open>
  The service of \<^verbatim>\<open>main.py\<close> reads two MongoDB collections into pandas frames,
  canonicalises the column \<^verbatim>\<open>typeRessource\<close> of both, selects the courses whose
  label is one of the user's preferred labels and returns the first \<^verbatim>\<open>top_n\<close> of them.

  Strings are Python \<^verbatim>\<open>str\<close> values over the code points 0..255 (one \<^typ>\<open>char\<close> per code
  point, read as Latin-1); on this range \<^verbatim>\<open>str.lower\<close>, \<^verbatim>\<open>str.isspace\<close> and
  \<^verbatim>\<open>str.strip\<close> are modelled exactly.

  A field of a stored document is absent, present with the value \<^verbatim>\<open>None\<close>, or present
  with a value. The collection \<^verbatim>\<open>users\<close> is read by \<^verbatim>\<open>load_data\<close> and never used; it
  is left out. Reads of the store itself succeed: the only failures modelled are the ones
  the Python code raises on the data it has read.
\<close>

datatype 'a field = Missing | Null | Val 'a

text \<open>
  A document of \<^verbatim>\<open>db.courses\<close>. Every field but \<^verbatim>\<open>typeRessource\<close> is taken to be present
  in every document; \<^verbatim>\<open>cd_id\<close> is the string form of \<^verbatim>\<open>_id\<close>.
\<close>

record course_doc =
  cd_id :: string
  cd_title :: string
  cd_typeRessource :: "string field"
  cd_level :: string
  cd_price :: real

text \<open>A document of \<^verbatim>\<open>db.preferences\<close>; \<^verbatim>\<open>pd_user\<close> is the string form of \<^verbatim>\<open>user\<close>.\<close>

record pref_doc =
  pd_user :: string
  pd_typeRessource :: "string field"

record store =
  db_preferences :: "pref_doc list"
  db_courses :: "course_doc list"

text \<open>
  A row of \<^verbatim>\<open>courses_df\<close> after preprocessing, which is also the dictionary that
  \<^verbatim>\<open>to_dict(orient='records')\<close> returns for it (class \<^verbatim>\<open>Course\<close>).
\<close>

record Course =
  cid :: string
  title :: string
  typeRessource :: string
  level :: string
  price :: real

text \<open>A row of \<^verbatim>\<open>prefs_df\<close> after preprocessing; the cell \<open>None\<close> is pandas' NaN.\<close>

record pref_row =
  user :: string
  pref_typeRessource :: "string option"

record RecommendationResponse =
  user_id :: string
  preferences :: "string option list"
  recommendations :: "Course list"

text \<open>
  Exceptions. The detail of an \<^verbatim>\<open>HTTPException\<close> is a fixed message or the f-string
  \<^verbatim>\<open>f"<prefix>{str(e)}"\<close> of a caught exception \<open>e\<close>.
\<close>

datatype exn = KeyError string | HTTPException nat detail
  and detail = Msg string | Wrapped string exn

section \<open>String operations\<close>

definition py_isspace :: "char \<Rightarrow> bool" where
  "py_isspace c = (of_char c \<in> {9, 10, 11, 12, 13, 28, 29, 30, 31, 32, 133, 160 :: nat})"

definition py_lower_char :: "char \<Rightarrow> char" where
  "py_lower_char c =
     (let n = of_char c :: nat in
      if 65 \<le> n \<and> n \<le> 90 then char_of (n + 32)
      else if n = 215 then c
      else if 192 \<le> n \<and> n \<le> 222 then char_of (n + 32)
      else c)"

definition str_lower :: "string \<Rightarrow> string" where
  "str_lower s = map py_lower_char s"

definition str_strip :: "string \<Rightarrow> string" where
  "str_strip s = rev (dropWhile py_isspace (rev (dropWhile py_isspace s)))"

text \<open>\<^verbatim>\<open>Series.replace(a, b)\<close> on one cell: a cell equal to \<open>a\<close> becomes \<open>b\<close>.\<close>

definition replace_value :: "string \<Rightarrow> string \<Rightarrow> string option \<Rightarrow> string option" where
  "replace_value a b x = (if x = Some a then Some b else x)"

text \<open>\<^verbatim>\<open>Series.fillna(v)\<close> on one cell of a string column.\<close>

fun fillna :: "string \<Rightarrow> string field \<Rightarrow> string" where
  "fillna v Missing = v"
| "fillna v Null = v"
| "fillna v (Val s) = s"

text \<open>The cell that \<^verbatim>\<open>pd.DataFrame\<close> holds for a field: NaN or \<^verbatim>\<open>None\<close> when there is no value.\<close>

fun cell :: "string field \<Rightarrow> string option" where
  "cell Missing = None"
| "cell Null = None"
| "cell (Val s) = Some s"

text \<open>
  \<^verbatim>\<open>pd.DataFrame(list_of_dicts)\<close> has a column for a key exactly when some document
  carries the key; reading any other column raises \<^verbatim>\<open>KeyError\<close>.
\<close>

fun has_column :: "('d \<Rightarrow> 'a field) \<Rightarrow> 'd list \<Rightarrow> bool" where
  "has_column f [] = False"
| "has_column f (d # ds) = (case f d of Missing \<Rightarrow> has_column f ds | _ \<Rightarrow> True)"

section \<open>The normalisation pipelines of \<^verbatim>\<open>load_data\<close>\<close>

text \<open>Lines 64-65: \<^verbatim>\<open>fillna('other')\<close>, then \<^verbatim>\<open>.str.lower().str.strip()\<close>.\<close>

definition normalize_course :: "string \<Rightarrow> string" where
  "normalize_course s = str_strip (str_lower s)"

text \<open>Lines 69-70: \<^verbatim>\<open>.str.lower().str.strip()\<close>, then \<^verbatim>\<open>.replace(...)\<close>.\<close>

definition normalize_pref_cell :: "string option \<Rightarrow> string option" where
  "normalize_pref_cell x =
     replace_value '' interactive exercice'' ''interactive exercice''
       (map_option str_strip (map_option str_lower x))"

definition normalize_pref :: "string \<Rightarrow> string" where
  "normalize_pref s =
     (if str_strip (str_lower s) = '' interactive exercice'' then ''interactive exercice''
      else str_strip (str_lower s))"

text \<open>Lowercase, then trim, and nothing else.\<close>

definition lower_then_trim :: "string \<Rightarrow> string" where
  "lower_then_trim s = str_strip (str_lower s)"

definition preprocess_course :: "course_doc \<Rightarrow> Course" where
  "preprocess_course d =
     \<lparr>cid = cd_id d, title = cd_title d,
      typeRessource = normalize_course (fillna ''other'' (cd_typeRessource d)),
      level = cd_level d, price = cd_price d\<rparr>"

definition preprocess_pref :: "pref_doc \<Rightarrow> pref_row" where
  "preprocess_pref d =
     \<lparr>user = pd_user d,
      pref_typeRessource = normalize_pref_cell (cell (pd_typeRessource d))\<rparr>"

section \<open>The service\<close>

text \<open>\<^verbatim>\<open>try: body except Exception as e: handler(e)\<close>.\<close>

definition try_except :: "exn + 'a \<Rightarrow> (exn \<Rightarrow> exn + 'a) \<Rightarrow> exn + 'a" where
  "try_except body handler = (case body of Inl e \<Rightarrow> handler e | Inr v \<Rightarrow> Inr v)"

definition load_data :: "store \<Rightarrow> exn + (pref_row list \<times> Course list)" where
  "load_data db =
     try_except
       (if \<not> has_column cd_typeRessource (db_courses db) then Inl (KeyError ''typeRessource'')
        else if \<not> has_column pd_typeRessource (db_preferences db)
          then Inl (KeyError ''typeRessource'')
        else Inr (map preprocess_pref (db_preferences db),
                  map preprocess_course (db_courses db)))
       (\<lambda>e. Inl (HTTPException 500 (Wrapped ''Error loading data: '' e)))"

text \<open>
  Lines 80-87. On a frame that \<^verbatim>\<open>load_data\<close> returned both columns exist, so the body of
  the \<^verbatim>\<open>try\<close> raises nothing and its handler, which returns the empty list, is never
  entered; \<^verbatim>\<open>user_prefs if user_prefs else []\<close> is \<^verbatim>\<open>user_prefs\<close>.
\<close>

definition get_user_preferences :: "string \<Rightarrow> pref_row list \<Rightarrow> string option list" where
  "get_user_preferences uid prefs_df =
     map pref_typeRessource (filter (\<lambda>p. user p = uid) prefs_df)"

text \<open>\<^verbatim>\<open>courses_df[courses_df['typeRessource'].isin(user_prefs)]\<close>.\<close>

definition isin :: "string option list \<Rightarrow> Course \<Rightarrow> bool" where
  "isin user_prefs c = (Some (typeRessource c) \<in> set user_prefs)"

definition matched_courses :: "string option list \<Rightarrow> Course list \<Rightarrow> Course list" where
  "matched_courses user_prefs courses_df = filter (isin user_prefs) courses_df"

text \<open>
  The number of matching rows before position \<open>k\<close> of the catalog: the position that
  row \<open>k\<close>, when it matches, has among the matches.
\<close>

definition matches_before :: "string option list \<Rightarrow> Course list \<Rightarrow> nat \<Rightarrow> nat" where
  "matches_before user_prefs courses_df k =
     length (filter (isin user_prefs) (take k courses_df))"

text \<open>\<^verbatim>\<open>DataFrame.head(n)\<close>: the first \<open>n\<close> rows, or all but the last \<open>-n\<close> when \<open>n < 0\<close>.\<close>

definition df_head :: "int \<Rightarrow> 'a list \<Rightarrow> 'a list" where
  "df_head n xs = (if 0 \<le> n then take (nat n) xs else take (length xs - nat (- n)) xs)"

definition recommend_courses ::
  "string \<Rightarrow> pref_row list \<Rightarrow> Course list \<Rightarrow> int \<Rightarrow> exn + Course list" where
  "recommend_courses uid prefs_df courses_df top_n =
     try_except
       (let user_prefs = get_user_preferences uid prefs_df in
        if user_prefs = [] then Inr []
        else let matched = matched_courses user_prefs courses_df in
          if matched = [] then Inr []
          else Inr (df_head top_n matched))
       (\<lambda>e. Inl (HTTPException 500 (Wrapped ''Error recommending courses: '' e)))"

definition get_recommendations :: "store \<Rightarrow> string \<Rightarrow> int \<Rightarrow> exn + RecommendationResponse" where
  "get_recommendations db uid top_n =
     try_except
       (if top_n < 1 \<or> top_n > 50
          then Inl (HTTPException 400 (Msg ''top_n must be between 1 and 50''))
        else case load_data db of
          Inl e \<Rightarrow> Inl e
        | Inr (prefs_df, courses_df) \<Rightarrow>
            (case recommend_courses uid prefs_df courses_df top_n of
               Inl e \<Rightarrow> Inl e
             | Inr recs \<Rightarrow>
                 Inr \<lparr>user_id = uid,
                      preferences = get_user_preferences uid prefs_df,
                      recommendations = recs\<rparr>))
       (\<lambda>e. Inl (HTTPException 500 (Wrapped ''Error processing recommendations: '' e)))"

text \<open>
  The status of the HTTP response. A raised \<^verbatim>\<open>HTTPException\<close> gives its status code, any
  other exception 500. A returned value is validated against
  \<^verbatim>\<open>response_model=RecommendationResponse\<close> (line 115), whose field \<^verbatim>\<open>preferences\<close> is a
  \<^verbatim>\<open>List[str]\<close>: a preference that is not a string (the NaN cell of a preference document
  without a label) makes the response invalid, and the status is 500; otherwise it is 200.
  The fields of a returned course are strings and a number by the types of the model.
\<close>

fun http_status :: "exn + RecommendationResponse \<Rightarrow> nat" where
  "http_status (Inr r) = (if None \<in> set (preferences r) then 500 else 200)"
| "http_status (Inl (HTTPException code d)) = code"
| "http_status (Inl (KeyError k)) = 500"

section \<open>Example snapshots of the store\<close>

definition course :: "string \<Rightarrow> string field \<Rightarrow> course_doc" where
  "course i t =
     \<lparr>cd_id = i, cd_title = ''Title'', cd_typeRessource = t, cd_level = ''beginner'',
      cd_price = 0\<rparr>"

definition preference :: "string \<Rightarrow> string field \<Rightarrow> pref_doc" where
  "preference u t = \<lparr>pd_user = u, pd_typeRessource = t\<rparr>"

definition row :: "string \<Rightarrow> string \<Rightarrow> Course" where
  "row i t =
     \<lparr>cid = i, title = ''Title'', typeRessource = t, level = ''beginner'', price = 0\<rparr>"

text \<open>One user who prefers \<^verbatim>\<open>" Video "\<close>; a video course and a quiz.\<close>

definition scenario_video :: store where
  "scenario_video =
     \<lparr>db_preferences = [preference ''u1'' (Val '' Video '')],
      db_courses = [course ''c1'' (Val ''video''), course ''c2'' (Val ''quiz'')]\<rparr>"

text \<open>The stored preference carries the label with a leading space.\<close>

definition scenario_variant :: store where
  "scenario_variant =
     \<lparr>db_preferences = [preference ''u1'' (Val '' interactive exercice'')],
      db_courses = [course ''c1'' (Val ''interactive exercice'')]\<rparr>"

text \<open>A course without the key, a course with a label, a course whose label is \<^verbatim>\<open>None\<close>.\<close>

definition scenario_absent :: store where
  "scenario_absent =
     \<lparr>db_preferences = [preference ''u1'' (Val ''Other '')],
      db_courses = [course ''c1'' Missing, course ''c2'' (Val ''video''), course ''c3'' Null]\<rparr>"

text \<open>Four courses, three of which match the two preferences of the user.\<close>

definition scenario_order :: store where
  "scenario_order =
     \<lparr>db_preferences = [preference ''u1'' (Val ''quiz''), preference ''u1'' (Val ''video'')],
      db_courses = [course ''c1'' (Val ''video''), course ''c2'' (Val ''pdf''),
                    course ''c3'' (Val ''quiz''), course ''c4'' (Val ''video'')]\<rparr>"

text \<open>The collection \<^verbatim>\<open>preferences\<close> holds no document.\<close>

definition scenario_no_preferences :: store where
  "scenario_no_preferences =
     \<lparr>db_preferences = [], db_courses = [course ''c1'' (Val ''video'')]\<rparr>"

text \<open>The collection \<^verbatim>\<open>courses\<close> holds no document.\<close>

definition scenario_no_courses :: store where
  "scenario_no_courses =
     \<lparr>db_preferences = [preference ''u1'' (Val ''video'')], db_courses = []\<rparr>"

text \<open>No course document carries the key \<^verbatim>\<open>typeRessource\<close>; the user prefers \<^verbatim>\<open>"other"\<close>.\<close>

definition scenario_all_absent :: store where
  "scenario_all_absent =
     \<lparr>db_preferences = [preference ''u1'' (Val ''other'')],
      db_courses = [course ''c1'' Missing]\<rparr>"

text \<open>The stored preference of the user has the label \<^verbatim>\<open>None\<close>.\<close>

definition scenario_null_preference :: store where
  "scenario_null_preference =
     \<lparr>db_preferences = [preference ''u1'' Null, preference ''u2'' (Val ''video'')],
      db_courses = [course ''c1'' (Val ''video'')]\<rparr>"

section \<open>Facts about the string operations\<close>

lemma py_isspace_lower [simp]: "py_isspace (py_lower_char c) = py_isspace c"
  unfolding py_isspace_def py_lower_char_def Let_def
  by (auto simp: of_char_of)

lemma py_lower_char_idem [simp]: "py_lower_char (py_lower_char c) = py_lower_char c"
  unfolding py_lower_char_def Let_def
  by (auto simp: of_char_of)

lemma str_lower_idem: "str_lower (str_lower s) = str_lower s"
  by (simp add: str_lower_def)

text \<open>Lowercasing neither creates nor removes white space, so it commutes with trimming.\<close>

lemma str_lower_strip: "str_lower (str_strip s) = str_strip (str_lower s)"
  by (simp add: str_lower_def str_strip_def rev_map dropWhile_map comp_def)

lemma drop_trailing_Cons:
  "\<not> P x \<Longrightarrow> rev (dropWhile P (rev (x # ys))) = x # rev (dropWhile P (rev ys))"
  by (simp add: dropWhile_append)

text \<open>A trimmed string does not start with white space.\<close>

lemma str_strip_head:
  assumes "str_strip s = c # t"
  shows "\<not> py_isspace c"
proof (cases "dropWhile py_isspace s")
  case Nil
  with assms show ?thesis by (simp add: str_strip_def)
next
  case (Cons x ys)
  then have nx: "\<not> py_isspace x"
    using hd_dropWhile [of py_isspace s] by simp
  from Cons have "str_strip s = x # rev (dropWhile py_isspace (rev ys))"
    using drop_trailing_Cons [of py_isspace x ys] nx by (simp add: str_strip_def)
  with assms nx show ?thesis by simp
qed

lemma dropWhile_str_strip: "dropWhile py_isspace (str_strip s) = str_strip s"
  by (cases "str_strip s") (auto dest: str_strip_head)

lemma str_strip_idem: "str_strip (str_strip s) = str_strip s"
proof -
  have "str_strip (str_strip s) = rev (dropWhile py_isspace (rev (str_strip s)))"
    by (simp add: str_strip_def [of "str_strip s"] dropWhile_str_strip)
  also have "\<dots> = str_strip s"
    by (simp add: str_strip_def)
  finally show ?thesis .
qed

lemma str_strip_not_variant: "str_strip s \<noteq> '' interactive exercice''"
proof
  assume "str_strip s = '' interactive exercice''"
  then have "\<not> py_isspace (CHR '' '')" by (rule str_strip_head)
  then show False by (simp add: py_isspace_def)
qed

lemma normalize_pref_cell_Some: "normalize_pref_cell (Some s) = Some (normalize_pref s)"
  by (simp add: normalize_pref_cell_def normalize_pref_def replace_value_def)

lemma normalize_pref_cell_None: "normalize_pref_cell None = None"
  by (simp add: normalize_pref_cell_def replace_value_def)

lemma normalize_pref_lower_strip: "normalize_pref s = str_strip (str_lower s)"
  by (simp add: normalize_pref_def str_strip_not_variant)

section \<open>Normalisation\<close>

text \<open>
  Claim C5. Normalisation is a total function and is idempotent: applying it to its own
  result changes nothing. This holds for the pipeline applied to preference labels
  (lowercase, trim, replace the variant), for the same pipeline on a cell that may be NaN,
  and for the pipeline applied to course labels (lowercase, trim).
\<close>

theorem normalize_idempotent:
  "normalize_pref (normalize_pref x) = normalize_pref x
   \<and> normalize_pref_cell (normalize_pref_cell y) = normalize_pref_cell y
   \<and> normalize_course (normalize_course x) = normalize_course x"
proof -
  have strings: "str_strip (str_lower (str_strip (str_lower s))) = str_strip (str_lower s)" for s
    by (simp add: str_lower_strip [symmetric] str_lower_idem str_strip_idem)
  have p: "normalize_pref (normalize_pref s) = normalize_pref s" for s
    by (simp add: normalize_pref_lower_strip strings)
  have c: "normalize_pref_cell (normalize_pref_cell y) = normalize_pref_cell y"
    by (cases y) (simp_all add: normalize_pref_cell_None normalize_pref_cell_Some p)
  have n: "normalize_course (normalize_course x) = normalize_course x"
    by (simp add: normalize_course_def strings)
  from p c n show ?thesis by blast
qed

text \<open>
  Claim C10. The pipeline applied to preference labels (lowercase, trim, then replace the
  exact value \<^verbatim>\<open>" interactive exercice"\<close>) is equal to lowercase-then-trim alone: a
  trimmed value never starts with a space, so the replacement never changes a value,
  neither on a string nor on a NaN cell, and a preference document is preprocessed as if
  line 70 were not there.
\<close>

theorem variant_replacement_unreachable:
  "normalize_pref s = lower_then_trim s
   \<and> normalize_pref_cell x = map_option lower_then_trim x
   \<and> replace_value '' interactive exercice'' ''interactive exercice''
        (map_option str_strip (map_option str_lower x))
      = map_option str_strip (map_option str_lower x)
   \<and> preprocess_pref d
      = \<lparr>user = pd_user d,
         pref_typeRessource = map_option lower_then_trim (cell (pd_typeRessource d))\<rparr>"
proof -
  have a: "normalize_pref s = lower_then_trim s"
    by (simp add: normalize_pref_lower_strip lower_then_trim_def)
  have r: "replace_value '' interactive exercice'' ''interactive exercice''
        (map_option str_strip (map_option str_lower y))
      = map_option str_strip (map_option str_lower y)" for y
    by (cases y) (simp_all add: replace_value_def str_strip_not_variant)
  have b: "normalize_pref_cell y = map_option lower_then_trim y" for y
    unfolding normalize_pref_cell_def r
    by (cases y) (simp_all add: lower_then_trim_def)
  have c: "preprocess_pref d
      = \<lparr>user = pd_user d,
         pref_typeRessource = map_option lower_then_trim (cell (pd_typeRessource d))\<rparr>"
    by (simp add: preprocess_pref_def b)
  from a b r c show ?thesis by blast
qed

section \<open>Facts about the service\<close>

lemma has_column_iff: "has_column f ds \<longleftrightarrow> (\<exists>d\<in>set ds. f d \<noteq> Missing)"
  by (induction ds) (auto split: field.splits)

lemma load_data_Inr_iff:
  "load_data db = Inr (prefs_df, courses_df) \<longleftrightarrow>
     has_column cd_typeRessource (db_courses db) \<and>
     has_column pd_typeRessource (db_preferences db) \<and>
     prefs_df = map preprocess_pref (db_preferences db) \<and>
     courses_df = map preprocess_course (db_courses db)"
  by (auto simp: load_data_def try_except_def)

lemma matched_courses_Nil: "matched_courses [] courses_df = []"
  by (simp add: matched_courses_def isin_def)

lemma recommend_courses_eq:
  "0 \<le> top_n \<Longrightarrow>
   recommend_courses uid prefs_df courses_df top_n
     = Inr (take (nat top_n) (matched_courses (get_user_preferences uid prefs_df) courses_df))"
  by (simp add: recommend_courses_def try_except_def Let_def df_head_def matched_courses_Nil)

lemma recommend_courses_no_prefs:
  "get_user_preferences uid prefs_df = [] \<Longrightarrow>
   recommend_courses uid prefs_df courses_df top_n = Inr []"
  by (simp add: recommend_courses_def try_except_def)

lemma get_recommendations_ok:
  assumes "1 \<le> top_n" "top_n \<le> 50" "load_data db = Inr (prefs_df, courses_df)"
  shows "get_recommendations db uid top_n =
     Inr \<lparr>user_id = uid,
          preferences = get_user_preferences uid prefs_df,
          recommendations =
            take (nat top_n) (matched_courses (get_user_preferences uid prefs_df) courses_df)\<rparr>"
  using assms by (simp add: get_recommendations_def try_except_def recommend_courses_eq)

lemma get_recommendations_Inr:
  assumes "get_recommendations db uid top_n = Inr r"
  shows "1 \<le> top_n \<and> top_n \<le> 50 \<and>
     (\<exists>prefs_df courses_df. load_data db = Inr (prefs_df, courses_df) \<and>
        r = \<lparr>user_id = uid,
          preferences = get_user_preferences uid prefs_df,
          recommendations =
            take (nat top_n) (matched_courses (get_user_preferences uid prefs_df) courses_df)\<rparr>)"
proof -
  from assms have range: "1 \<le> top_n \<and> top_n \<le> 50"
    by (auto simp: get_recommendations_def try_except_def split: if_splits)
  from assms range obtain prefs_df courses_df where l: "load_data db = Inr (prefs_df, courses_df)"
    by (cases "load_data db") (auto simp: get_recommendations_def try_except_def)
  from get_recommendations_ok [of top_n db prefs_df courses_df uid] range l assms
  show ?thesis by auto
qed

lemma get_recommendations_out_of_range:
  "top_n < 1 \<or> top_n > 50 \<Longrightarrow>
   get_recommendations db uid top_n =
     Inl (HTTPException 500 (Wrapped ''Error processing recommendations: ''
            (HTTPException 400 (Msg ''top_n must be between 1 and 50''))))"
  by (simp add: get_recommendations_def try_except_def)

lemma get_recommendations_load_failure:
  assumes "1 \<le> top_n" "top_n \<le> 50" "load_data db = Inl e"
  shows "get_recommendations db uid top_n =
     Inl (HTTPException 500 (Wrapped ''Error processing recommendations: '' e))"
  using assms by (simp add: get_recommendations_def try_except_def)

lemma get_user_preferences_unknown:
  assumes "filter (\<lambda>p. pd_user p = uid) docs = []"
  shows "get_user_preferences uid (map preprocess_pref docs) = []"
proof -
  have "filter (\<lambda>p. user p = uid) (map preprocess_pref docs)
        = map preprocess_pref (filter (\<lambda>p. pd_user p = uid) docs)"
    by (simp add: filter_map comp_def preprocess_pref_def)
  with assms show ?thesis by (simp add: get_user_preferences_def)
qed

lemmas eval_defs = course_def preference_def row_def load_data_def try_except_def
  preprocess_pref_def preprocess_course_def normalize_course_def normalize_pref_cell_def
  replace_value_def str_lower_def str_strip_def py_isspace_def py_lower_char_def
  get_recommendations_def recommend_courses_def get_user_preferences_def matched_courses_def
  isin_def df_head_def Let_def char_of_def bit_Suc_0_iff

lemma load_scenario_video:
  "load_data scenario_video =
     Inr ([\<lparr>user = ''u1'', pref_typeRessource = Some ''video''\<rparr>],
          [row ''c1'' ''video'', row ''c2'' ''quiz''])"
  by (simp add: scenario_video_def eval_defs)


lemma normalize_course_fixed: "normalize_course (normalize_course s) = normalize_course s"
  by (simp add: normalize_course_def str_lower_strip [symmetric] str_lower_idem str_strip_idem)

lemma normalize_course_other: "normalize_course ''other'' = ''other''"
  by (simp add: eval_defs)

section \<open>The bound on the number of results\<close>

text \<open>
  Claim C1. A request whose \<^verbatim>\<open>top_n\<close> is outside 1..50 is to be answered with status
  400, and the limits 1 and 50 are to be accepted. The handler raises the
  \<^verbatim>\<open>HTTPException\<close> with status 400 inside its own \<^verbatim>\<open>try\<close> block, whose
  \<^verbatim>\<open>except Exception\<close> catches it and raises an \<^verbatim>\<open>HTTPException\<close> with status 500 in
  its place: with \<^verbatim>\<open>top_n = 0\<close> and with \<^verbatim>\<open>top_n = 51\<close> the response has status 500.
  The limits 1 and 50 are accepted.
\<close>

theorem limit_out_of_range_is_status_500:
  "get_recommendations scenario_video ''u1'' 0 =
     Inl (HTTPException 500 (Wrapped ''Error processing recommendations: ''
            (HTTPException 400 (Msg ''top_n must be between 1 and 50''))))
   \<and> http_status (get_recommendations scenario_video ''u1'' 0) = 500
   \<and> http_status (get_recommendations scenario_video ''u1'' 51) = 500
   \<and> http_status (get_recommendations scenario_video ''u1'' 1) = 200
   \<and> http_status (get_recommendations scenario_video ''u1'' 50) = 200"
proof -
  have low: "get_recommendations scenario_video ''u1'' 0 =
     Inl (HTTPException 500 (Wrapped ''Error processing recommendations: ''
            (HTTPException 400 (Msg ''top_n must be between 1 and 50''))))"
    by (rule get_recommendations_out_of_range) simp
  have high: "get_recommendations scenario_video ''u1'' 51 =
     Inl (HTTPException 500 (Wrapped ''Error processing recommendations: ''
            (HTTPException 400 (Msg ''top_n must be between 1 and 50''))))"
    by (rule get_recommendations_out_of_range) simp
  have one: "http_status (get_recommendations scenario_video ''u1'' 1) = 200"
    by (simp add: get_recommendations_ok [OF _ _ load_scenario_video] get_user_preferences_def)
  have fifty: "http_status (get_recommendations scenario_video ''u1'' 50) = 200"
    by (simp add: get_recommendations_ok [OF _ _ load_scenario_video] get_user_preferences_def)
  from low high one fifty show ?thesis by simp
qed

section \<open>Empty collections\<close>

text \<open>
  Claim C9. An empty result is not to be a failure, also when a collection holds no
  document. A frame built from an empty list has no column, so \<^verbatim>\<open>load_data\<close> raises
  \<^verbatim>\<open>KeyError\<close> on \<^verbatim>\<open>['typeRessource']\<close>, and the request ends with status 500: both
  when \<^verbatim>\<open>preferences\<close> is empty and when \<^verbatim>\<open>courses\<close> is empty.
\<close>

theorem empty_collection_is_server_failure:
  "get_recommendations scenario_no_preferences ''u1'' 10 =
     Inl (HTTPException 500 (Wrapped ''Error processing recommendations: ''
            (HTTPException 500 (Wrapped ''Error loading data: '' (KeyError ''typeRessource'')))))
   \<and> http_status (get_recommendations scenario_no_preferences ''u1'' 10) = 500
   \<and> get_recommendations scenario_no_courses ''u1'' 10 =
     Inl (HTTPException 500 (Wrapped ''Error processing recommendations: ''
            (HTTPException 500 (Wrapped ''Error loading data: '' (KeyError ''typeRessource'')))))
   \<and> http_status (get_recommendations scenario_no_courses ''u1'' 10) = 500"
proof -
  have p: "load_data scenario_no_preferences =
      Inl (HTTPException 500 (Wrapped ''Error loading data: '' (KeyError ''typeRessource'')))"
    by (simp add: scenario_no_preferences_def load_data_def try_except_def course_def)
  have c: "load_data scenario_no_courses =
      Inl (HTTPException 500 (Wrapped ''Error loading data: '' (KeyError ''typeRessource'')))"
    by (simp add: scenario_no_courses_def load_data_def try_except_def)
  show ?thesis
    by (simp add: get_recommendations_load_failure [OF _ _ p]
        get_recommendations_load_failure [OF _ _ c])
qed

section \<open>Users without preferences\<close>

lemma has_columnI: "d \<in> set ds \<Longrightarrow> f d \<noteq> Missing \<Longrightarrow> has_column f ds"
  by (auto simp: has_column_iff)

lemma load_data_ok:
  assumes "has_column cd_typeRessource (db_courses db)"
    and "has_column pd_typeRessource (db_preferences db)"
  shows "load_data db =
           Inr (map preprocess_pref (db_preferences db), map preprocess_course (db_courses db))"
  using assms by (simp add: load_data_def try_except_def)

lemma has_column_scenario_video:
  "has_column cd_typeRessource (db_courses scenario_video)"
  "has_column pd_typeRessource (db_preferences scenario_video)"
  by (simp_all add: scenario_video_def course_def preference_def)

text \<open>
  On a snapshot in which both frames have the column \<^verbatim>\<open>typeRessource\<close> (so that
  \<^verbatim>\<open>load_data\<close> loads it) and for a limit within 1..50, a user id that no stored
  preference carries gets the response with no preferences and no recommendations, and
  the status is 200.
\<close>

lemma unknown_user_on_loaded_snapshot:
  assumes "uid \<notin> pd_user ` set (db_preferences db)"
    and "1 \<le> top_n" and "top_n \<le> 50"
    and "has_column cd_typeRessource (db_courses db)"
    and "has_column pd_typeRessource (db_preferences db)"
  shows "get_recommendations db uid top_n =
           Inr \<lparr>user_id = uid, preferences = [], recommendations = []\<rparr>
         \<and> http_status (get_recommendations db uid top_n) = 200"
proof -
  from assms(1) have "filter (\<lambda>p. pd_user p = uid) (db_preferences db) = []"
    by (auto simp: filter_empty_conv)
  then have "get_user_preferences uid (map preprocess_pref (db_preferences db)) = []"
    by (rule get_user_preferences_unknown)
  with get_recommendations_ok [OF assms(2) assms(3) load_data_ok [OF assms(4) assms(5)], of uid]
  show ?thesis by (simp add: matched_courses_Nil)
qed

lemma ghost_example:
  "get_recommendations scenario_video ''ghost'' 10 =
           Inr \<lparr>user_id = ''ghost'', preferences = [], recommendations = []\<rparr>
         \<and> http_status (get_recommendations scenario_video ''ghost'' 10) = 200"
proof -
  have u: "''ghost'' \<notin> pd_user ` set (db_preferences scenario_video)"
    by (simp add: scenario_video_def preference_def)
  show ?thesis
    by (rule unknown_user_on_loaded_snapshot [OF u _ _ has_column_scenario_video]) simp_all
qed

text \<open>
  A user with zero stored preferences: on the preprocessed preferences
  \<^verbatim>\<open>recommend_courses\<close> returns the empty list for every frame of courses and every
  \<^verbatim>\<open>top_n\<close> (the function returns before it reads the catalog), and on a snapshot in which
  both frames have the column, for a limit within 1..50, the handler returns a response
  whose recommendations are empty.
\<close>

lemma no_preferences_on_loaded_snapshot:
  assumes "filter (\<lambda>p. pd_user p = uid) (db_preferences db) = []"
  shows "recommend_courses uid (map preprocess_pref (db_preferences db)) any_courses any_n
           = Inr []
         \<and> (1 \<le> top_n \<and> top_n \<le> 50
             \<and> has_column cd_typeRessource (db_courses db)
             \<and> has_column pd_typeRessource (db_preferences db)
            \<longrightarrow> (\<exists>r. get_recommendations db uid top_n = Inr r \<and> recommendations r = []))"
proof -
  from assms have e: "get_user_preferences uid (map preprocess_pref (db_preferences db)) = []"
    by (rule get_user_preferences_unknown)
  then have a: "recommend_courses uid (map preprocess_pref (db_preferences db))
      any_courses any_n = Inr []"
    by (rule recommend_courses_no_prefs)
  have b: "\<exists>r. get_recommendations db uid top_n = Inr r \<and> recommendations r = []"
    if "1 \<le> top_n" and "top_n \<le> 50"
      and "has_column cd_typeRessource (db_courses db)"
      and "has_column pd_typeRessource (db_preferences db)"
    using get_recommendations_ok [OF that(1) that(2) load_data_ok [OF that(3) that(4)], of uid] e
    by (simp add: matched_courses_Nil)
  from a b show ?thesis by blast
qed

lemma load_scenario_no_preferences:
  "load_data scenario_no_preferences =
      Inl (HTTPException 500 (Wrapped ''Error loading data: '' (KeyError ''typeRessource'')))"
  by (simp add: scenario_no_preferences_def load_data_def try_except_def course_def)

lemma load_scenario_no_courses:
  "load_data scenario_no_courses =
      Inl (HTTPException 500 (Wrapped ''Error loading data: '' (KeyError ''typeRessource'')))"
  by (simp add: scenario_no_courses_def load_data_def try_except_def)

text \<open>
  Claim C7. A user id that no stored preference carries is to be answered with status 200
  and empty lists. When the collection \<^verbatim>\<open>preferences\<close> holds no document, every user id is
  unknown, the frame has no column \<^verbatim>\<open>typeRessource\<close>, line 69 raises \<^verbatim>\<open>KeyError\<close> and
  the request of the unknown user \<^verbatim>\<open>ghost\<close> ends with status 500; the same happens to an
  unknown user when the collection \<^verbatim>\<open>courses\<close> holds no document (line 64).
\<close>

theorem unknown_user_on_empty_collection_is_500:
  "''ghost'' \<notin> pd_user ` set (db_preferences scenario_no_preferences)
   \<and> get_recommendations scenario_no_preferences ''ghost'' 10 =
     Inl (HTTPException 500 (Wrapped ''Error processing recommendations: ''
            (HTTPException 500 (Wrapped ''Error loading data: '' (KeyError ''typeRessource'')))))
   \<and> http_status (get_recommendations scenario_no_preferences ''ghost'' 10) = 500
   \<and> ''ghost'' \<notin> pd_user ` set (db_preferences scenario_no_courses)
   \<and> http_status (get_recommendations scenario_no_courses ''ghost'' 10) = 500"
proof -
  have a: "''ghost'' \<notin> pd_user ` set (db_preferences scenario_no_preferences)"
    by (simp add: scenario_no_preferences_def)
  have b: "''ghost'' \<notin> pd_user ` set (db_preferences scenario_no_courses)"
    by (simp add: scenario_no_courses_def preference_def)
  from a b show ?thesis
    by (simp add: get_recommendations_load_failure [OF _ _ load_scenario_no_preferences]
        get_recommendations_load_failure [OF _ _ load_scenario_no_courses])
qed

text \<open>
  Claim C3. A user with zero stored preferences is to get an empty list of
  recommendations whatever the catalog holds. With a catalog that holds no document the
  frame of courses has no column \<^verbatim>\<open>typeRessource\<close>, line 64 raises \<^verbatim>\<open>KeyError\<close>, and the
  request of user \<^verbatim>\<open>u2\<close>, who has no stored preference, ends with status 500 and no list
  at all; so does it when the collection \<^verbatim>\<open>preferences\<close> holds no document (line 69).
\<close>

theorem no_preferences_on_empty_catalog_is_500:
  "filter (\<lambda>p. pd_user p = ''u2'') (db_preferences scenario_no_courses) = []
   \<and> db_courses scenario_no_courses = []
   \<and> get_recommendations scenario_no_courses ''u2'' 10 =
     Inl (HTTPException 500 (Wrapped ''Error processing recommendations: ''
            (HTTPException 500 (Wrapped ''Error loading data: '' (KeyError ''typeRessource'')))))
   \<and> http_status (get_recommendations scenario_no_courses ''u2'' 10) = 500
   \<and> filter (\<lambda>p. pd_user p = ''u2'') (db_preferences scenario_no_preferences) = []
   \<and> http_status (get_recommendations scenario_no_preferences ''u2'' 10) = 500"
proof -
  have a: "filter (\<lambda>p. pd_user p = ''u2'') (db_preferences scenario_no_courses) = []"
    and b: "db_courses scenario_no_courses = []"
    by (simp_all add: scenario_no_courses_def preference_def)
  have c: "filter (\<lambda>p. pd_user p = ''u2'') (db_preferences scenario_no_preferences) = []"
    by (simp add: scenario_no_preferences_def)
  from a b c show ?thesis
    by (simp add: get_recommendations_load_failure [OF _ _ load_scenario_no_preferences]
        get_recommendations_load_failure [OF _ _ load_scenario_no_courses])
qed

text \<open>
  A preference document whose label is \<^verbatim>\<open>None\<close> gives a NaN among the returned
  preferences: the handler returns, and the response does not validate.
\<close>

lemma null_preference_example:
  "get_recommendations scenario_null_preference ''u1'' 10 =
     Inr \<lparr>user_id = ''u1'', preferences = [None], recommendations = []\<rparr>
   \<and> http_status (get_recommendations scenario_null_preference ''u1'' 10) = 500"
proof -
  have l: "load_data scenario_null_preference =
     Inr ([\<lparr>user = ''u1'', pref_typeRessource = None\<rparr>,
           \<lparr>user = ''u2'', pref_typeRessource = Some ''video''\<rparr>],
          [row ''c1'' ''video''])"
    by (simp add: scenario_null_preference_def eval_defs)
  show ?thesis
    by (simp add: get_recommendations_ok [OF _ _ l] get_user_preferences_def
        matched_courses_def isin_def)
qed

section \<open>Shape of a successful response\<close>

text \<open>
  Claim C2. In every response of a request that succeeds, the recommendations are at most
  \<^verbatim>\<open>top_n\<close> many, and the label of every recommended course is one of the returned
  preferences; that label is the normalised one (normalising it again gives the same
  label).
\<close>

theorem recommendations_bounded_and_preferred:
  assumes "get_recommendations db uid top_n = Inr r"
  shows "int (length (recommendations r)) \<le> top_n
         \<and> (\<forall>c\<in>set (recommendations r).
               Some (typeRessource c) \<in> set (preferences r)
               \<and> normalize_course (typeRessource c) = typeRessource c)"
proof -
  from get_recommendations_Inr [OF assms] obtain prefs_df courses_df where
    range: "1 \<le> top_n" "top_n \<le> 50" and
    l: "load_data db = Inr (prefs_df, courses_df)" and
    r: "r = \<lparr>user_id = uid, preferences = get_user_preferences uid prefs_df,
          recommendations =
            take (nat top_n) (matched_courses (get_user_preferences uid prefs_df) courses_df)\<rparr>"
    by blast
  from range r have len: "int (length (recommendations r)) \<le> top_n" by simp
  have "Some (typeRessource c) \<in> set (preferences r)
        \<and> normalize_course (typeRessource c) = typeRessource c"
    if "c \<in> set (recommendations r)" for c
  proof -
    from that r have m: "c \<in> set (matched_courses (get_user_preferences uid prefs_df) courses_df)"
      by (auto dest: in_set_takeD)
    then have "Some (typeRessource c) \<in> set (preferences r)"
      by (simp add: r matched_courses_def isin_def)
    moreover from m l obtain d where "c = preprocess_course d"
      by (auto simp: matched_courses_def load_data_Inr_iff)
    then have "normalize_course (typeRessource c) = typeRessource c"
      by (simp add: preprocess_course_def normalize_course_fixed)
    ultimately show ?thesis by simp
  qed
  with len show ?thesis by blast
qed

theorem recommendations_bounded_and_preferred_witness:
  "get_recommendations scenario_video ''u1'' 10 =
     Inr \<lparr>user_id = ''u1'', preferences = [Some ''video''],
          recommendations = [row ''c1'' ''video'']\<rparr>
   \<and> int (length [row ''c1'' ''video'']) \<le> 10
   \<and> Some (typeRessource (row ''c1'' ''video'')) \<in> set [Some ''video'']
   \<and> normalize_course (typeRessource (row ''c1'' ''video'')) = typeRessource (row ''c1'' ''video'')"
proof -
  have h: "get_recommendations scenario_video ''u1'' 10 =
     Inr \<lparr>user_id = ''u1'', preferences = [Some ''video''],
          recommendations = [row ''c1'' ''video'']\<rparr>"
    by (simp add: get_recommendations_ok [OF _ _ load_scenario_video]
        get_user_preferences_def matched_courses_def isin_def row_def)
  from recommendations_bounded_and_preferred [OF h] h show ?thesis by (simp add: row_def)
qed

section \<open>Order of the recommendations\<close>

lemma filter_nth_rank:
  assumes "k < length xs" and "P (xs ! k)"
  shows "length (filter P (take k xs)) < length (filter P xs)
         \<and> filter P xs ! length (filter P (take k xs)) = xs ! k"
proof -
  from assms(1) have "xs = take k xs @ xs ! k # drop (Suc k) xs"
    by (rule id_take_nth_drop)
  then have "filter P xs = filter P (take k xs) @ filter P (xs ! k # drop (Suc k) xs)"
    by (metis filter_append)
  with assms(2) have "filter P xs = filter P (take k xs) @ xs ! k # filter P (drop (Suc k) xs)"
    by simp
  then have eq: "filter P xs = filter P (take k xs) @ (xs ! k # filter P (drop (Suc k) xs))" .
  have "length (filter P (take k xs)) < length (filter P xs)"
    by (subst eq) simp
  moreover have "filter P xs ! length (filter P (take k xs)) = xs ! k"
    by (subst eq) (simp only: nth_append_length)
  ultimately show ?thesis by (rule conjI)
qed

lemma rank_mono:
  assumes "a < b" and "b \<le> length xs" and "P (xs ! a)"
  shows "length (filter P (take a xs)) < length (filter P (take b xs))"
proof -
  from assms have "a < length (take b xs)" and "P (take b xs ! a)" by simp_all
  with filter_nth_rank [of a "take b xs" P]
  have "length (filter P (take a (take b xs))) < length (filter P (take b xs))" by simp
  moreover from assms(1) have "take a (take b xs) = take a xs" by (simp add: min_def)
  ultimately show ?thesis by simp
qed

lemma matched_courses_nth:
  assumes "k < length courses_df" and "isin ups (courses_df ! k)"
  shows "matches_before ups courses_df k < length (matched_courses ups courses_df)
         \<and> matched_courses ups courses_df ! matches_before ups courses_df k = courses_df ! k"
  unfolding matches_before_def matched_courses_def
  using assms by (rule filter_nth_rank)

lemma user_pref_label:
  assumes "load_data db = Inr (prefs_df, courses_df)"
    and "p \<in> set (db_preferences db)" and "pd_user p = uid" and "pd_typeRessource p = Val s"
  shows "Some (normalize_pref s) \<in> set (get_user_preferences uid prefs_df)"
proof -
  from assms(1) have "prefs_df = map preprocess_pref (db_preferences db)"
    by (simp add: load_data_Inr_iff)
  with assms(2) have "preprocess_pref p \<in> set prefs_df" by simp
  moreover from assms(3,4) have "user (preprocess_pref p) = uid"
    and "pref_typeRessource (preprocess_pref p) = Some (normalize_pref s)"
    by (simp_all add: preprocess_pref_def normalize_pref_cell_Some)
  ultimately show ?thesis
    by (force simp: get_user_preferences_def)
qed

lemma course_matches:
  assumes "load_data db = Inr (prefs_df, courses_df)"
    and "d \<in> set (db_courses db)"
    and "Some (typeRessource (preprocess_course d)) \<in> set user_prefs"
  shows "preprocess_course d \<in> set (matched_courses user_prefs courses_df)"
proof -
  from assms(1) have "courses_df = map preprocess_course (db_courses db)"
    by (simp add: load_data_Inr_iff)
  with assms(2,3) show ?thesis by (simp add: matched_courses_def isin_def)
qed

text \<open>
  Claim C4. The matcher keeps the order of the catalog and truncates after filtering: for
  \<^verbatim>\<open>top_n\<close> at least 0, \<^verbatim>\<open>recommend_courses\<close> returns the first \<^verbatim>\<open>top_n\<close> rows of the
  catalog filtered by the membership test, with no other key. For two matching rows at
  positions \<open>a < b\<close> of the catalog, the position of the first among the matches is
  smaller than that of the second, and when the second falls within the first \<^verbatim>\<open>top_n\<close>
  matches, both rows are in the result at these positions.
\<close>

theorem catalog_order_preserved:
  assumes "0 \<le> top_n"
  shows "\<exists>recs. recommend_courses uid prefs_df courses_df top_n = Inr recs
     \<and> recs = take (nat top_n)
                (filter (isin (get_user_preferences uid prefs_df)) courses_df)
     \<and> (\<forall>a b. a < b \<and> b < length courses_df
            \<and> isin (get_user_preferences uid prefs_df) (courses_df ! a)
            \<and> isin (get_user_preferences uid prefs_df) (courses_df ! b)
            \<and> matches_before (get_user_preferences uid prefs_df) courses_df b < nat top_n
          \<longrightarrow> matches_before (get_user_preferences uid prefs_df) courses_df a
                < matches_before (get_user_preferences uid prefs_df) courses_df b
            \<and> matches_before (get_user_preferences uid prefs_df) courses_df b < length recs
            \<and> recs ! matches_before (get_user_preferences uid prefs_df) courses_df a
                = courses_df ! a
            \<and> recs ! matches_before (get_user_preferences uid prefs_df) courses_df b
                = courses_df ! b)"
proof -
  define ups where "ups = get_user_preferences uid prefs_df"
  define m where "m = matched_courses ups courses_df"
  define n where "n = nat top_n"
  define recs where "recs = take n m"
  have r: "recommend_courses uid prefs_df courses_df top_n = Inr recs"
    unfolding recs_def n_def m_def ups_def using assms by (rule recommend_courses_eq)
  have f: "recs = take n (filter (isin ups) courses_df)"
    by (simp add: recs_def m_def matched_courses_def)
  have o: "matches_before ups courses_df a < matches_before ups courses_df b
        \<and> matches_before ups courses_df b < length recs
        \<and> recs ! matches_before ups courses_df a = courses_df ! a
        \<and> recs ! matches_before ups courses_df b = courses_df ! b"
    if h: "a < b \<and> b < length courses_df \<and> isin ups (courses_df ! a)
        \<and> isin ups (courses_df ! b) \<and> matches_before ups courses_df b < n" for a b
  proof -
    from h have ab: "a < b" and b: "b < length courses_df"
      and ma: "isin ups (courses_df ! a)" and mb: "isin ups (courses_df ! b)"
      and t: "matches_before ups courses_df b < n" by simp_all
    from ab b have a: "a < length courses_df" and b': "b \<le> length courses_df" by simp_all
    have lt: "matches_before ups courses_df a < matches_before ups courses_df b"
      unfolding matches_before_def using ab b' ma by (rule rank_mono)
    from matched_courses_nth [OF a ma]
    have a2: "m ! matches_before ups courses_df a = courses_df ! a"
      by (simp add: m_def)
    from matched_courses_nth [OF b mb]
    have b1: "matches_before ups courses_df b < length m"
      and b2: "m ! matches_before ups courses_df b = courses_df ! b"
      by (simp_all add: m_def)
    from t b1 have c2: "matches_before ups courses_df b < length recs"
      by (simp add: recs_def)
    from lt t have "matches_before ups courses_df a < n" by simp
    then have c3: "recs ! matches_before ups courses_df a = courses_df ! a"
      by (simp add: recs_def a2)
    from t have c4: "recs ! matches_before ups courses_df b = courses_df ! b"
      by (simp add: recs_def b2)
    from lt c2 c3 c4 show ?thesis by simp
  qed
  have "recommend_courses uid prefs_df courses_df top_n = Inr recs
     \<and> recs = take n (filter (isin ups) courses_df)
     \<and> (\<forall>a b. a < b \<and> b < length courses_df \<and> isin ups (courses_df ! a)
            \<and> isin ups (courses_df ! b) \<and> matches_before ups courses_df b < n
          \<longrightarrow> matches_before ups courses_df a < matches_before ups courses_df b
            \<and> matches_before ups courses_df b < length recs
            \<and> recs ! matches_before ups courses_df a = courses_df ! a
            \<and> recs ! matches_before ups courses_df b = courses_df ! b)"
  proof (intro conjI allI impI)
    show "recommend_courses uid prefs_df courses_df top_n = Inr recs" by (rule r)
    show "recs = take n (filter (isin ups) courses_df)" by (rule f)
  next
    fix a b
    assume h: "a < b \<and> b < length courses_df \<and> isin ups (courses_df ! a)
        \<and> isin ups (courses_df ! b) \<and> matches_before ups courses_df b < n"
    note c = o [OF h]
    show "matches_before ups courses_df a < matches_before ups courses_df b"
      using c by (rule conjunct1)
    show "matches_before ups courses_df b < length recs"
      using c by (elim conjE)
    show "recs ! matches_before ups courses_df a = courses_df ! a"
      using c by (elim conjE)
    show "recs ! matches_before ups courses_df b = courses_df ! b"
      using c by (elim conjE)
  qed
  then show ?thesis
    unfolding ups_def n_def by (rule exI)
qed


theorem catalog_order_preserved_witness:
  "\<exists>recs. recommend_courses ''u1''
            [\<lparr>user = ''u1'', pref_typeRessource = Some ''quiz''\<rparr>,
             \<lparr>user = ''u1'', pref_typeRessource = Some ''video''\<rparr>]
            [row ''c1'' ''video'', row ''c2'' ''pdf'', row ''c3'' ''quiz'', row ''c4'' ''video'']
            2 = Inr recs
     \<and> recs = [row ''c1'' ''video'', row ''c3'' ''quiz'']
     \<and> recs ! 0 = row ''c1'' ''video'' \<and> recs ! 1 = row ''c3'' ''quiz''"
proof -
  define ps where "ps = [\<lparr>user = ''u1'', pref_typeRessource = Some ''quiz''\<rparr>,
             \<lparr>user = ''u1'', pref_typeRessource = Some ''video''\<rparr>]"
  define cs where
    "cs = [row ''c1'' ''video'', row ''c2'' ''pdf'', row ''c3'' ''quiz'', row ''c4'' ''video'']"
  have ups: "get_user_preferences ''u1'' ps = [Some ''quiz'', Some ''video'']"
    by (simp add: ps_def get_user_preferences_def)
  have m0: "matches_before [Some ''quiz'', Some ''video''] cs 0 = 0"
    by (simp add: matches_before_def)
  have m2: "matches_before [Some ''quiz'', Some ''video''] cs 2 = 1"
    by (simp add: matches_before_def cs_def isin_def row_def numeral_2_eq_2)
  from catalog_order_preserved [of 2 "''u1''" ps cs] obtain recs where
    r: "recommend_courses ''u1'' ps cs 2 = Inr recs" and
    f: "recs = take (nat 2) (filter (isin (get_user_preferences ''u1'' ps)) cs)" and
    o: "\<forall>a b. a < b \<and> b < length cs
            \<and> isin (get_user_preferences ''u1'' ps) (cs ! a)
            \<and> isin (get_user_preferences ''u1'' ps) (cs ! b)
            \<and> matches_before (get_user_preferences ''u1'' ps) cs b < nat 2
          \<longrightarrow> matches_before (get_user_preferences ''u1'' ps) cs a
                < matches_before (get_user_preferences ''u1'' ps) cs b
            \<and> matches_before (get_user_preferences ''u1'' ps) cs b < length recs
            \<and> recs ! matches_before (get_user_preferences ''u1'' ps) cs a = cs ! a
            \<and> recs ! matches_before (get_user_preferences ''u1'' ps) cs b = cs ! b"
    by auto
  have h: "(0::nat) < 2 \<and> 2 < length cs
            \<and> isin (get_user_preferences ''u1'' ps) (cs ! 0)
            \<and> isin (get_user_preferences ''u1'' ps) (cs ! 2)
            \<and> matches_before (get_user_preferences ''u1'' ps) cs 2 < nat 2"
    by (simp add: ups m2) (simp add: cs_def isin_def row_def)
  from o [rule_format, OF h] have n: "recs ! 0 = cs ! 0 \<and> recs ! 1 = cs ! 2"
    by (simp add: ups m0 m2)
  from f have e: "recs = [row ''c1'' ''video'', row ''c3'' ''quiz'']"
    by (simp add: ups cs_def isin_def row_def numeral_2_eq_2)
  from r e n show ?thesis
    unfolding ps_def cs_def by simp
qed

section \<open>Labels\<close>

text \<open>
  A course whose \<^verbatim>\<open>typeRessource\<close> is absent (no key, or \<^verbatim>\<open>None\<close>) is preprocessed
  exactly as if it carried the label \<^verbatim>\<open>"other"\<close>: its row has the label \<^verbatim>\<open>other\<close>, and
  when the frame of courses has the column (some course document carries the key) and the
  user has a stored preference whose label normalises to \<^verbatim>\<open>other\<close>, the snapshot loads
  and the row is among the matches.
\<close>

lemma absent_type_on_loaded_snapshot:
  assumes "cd_typeRessource d = Missing \<or> cd_typeRessource d = Null"
    and "d \<in> set (db_courses db)"
    and "has_column cd_typeRessource (db_courses db)"
    and "p \<in> set (db_preferences db)" and "pd_user p = uid"
    and "pd_typeRessource p = Val s" and "normalize_pref s = ''other''"
  shows "preprocess_course d = preprocess_course (d\<lparr>cd_typeRessource := Val ''other''\<rparr>)
         \<and> typeRessource (preprocess_course d) = ''other''
         \<and> (\<exists>prefs_df courses_df. load_data db = Inr (prefs_df, courses_df)
               \<and> preprocess_course d
                   \<in> set (matched_courses (get_user_preferences uid prefs_df) courses_df))"
proof -
  from assms(1) have f: "fillna ''other'' (cd_typeRessource d) = ''other''" by auto
  then have a: "preprocess_course d = preprocess_course (d\<lparr>cd_typeRessource := Val ''other''\<rparr>)"
    by (simp add: preprocess_course_def)
  from f have b: "typeRessource (preprocess_course d) = ''other''"
    by (simp add: preprocess_course_def normalize_course_other)
  from assms(4,6) have "has_column pd_typeRessource (db_preferences db)"
    by (intro has_columnI [of p]) simp_all
  with assms(3) obtain prefs_df courses_df where
    l: "load_data db = Inr (prefs_df, courses_df)"
    using load_data_ok by blast
  from user_pref_label [OF l assms(4) assms(5) assms(6)] assms(7) b
  have "Some (typeRessource (preprocess_course d)) \<in> set (get_user_preferences uid prefs_df)"
    by simp
  with l assms(2) have "preprocess_course d
      \<in> set (matched_courses (get_user_preferences uid prefs_df) courses_df)"
    by (rule course_matches)
  with l have "\<exists>prefs_df courses_df. load_data db = Inr (prefs_df, courses_df)
               \<and> preprocess_course d
                   \<in> set (matched_courses (get_user_preferences uid prefs_df) courses_df)"
    by (intro exI conjI)
  with a b show ?thesis by (intro conjI)
qed

lemma load_scenario_absent:
  "load_data scenario_absent =
     Inr ([\<lparr>user = ''u1'', pref_typeRessource = Some ''other''\<rparr>],
          [row ''c1'' ''other'', row ''c2'' ''video'', row ''c3'' ''other''])"
  by (simp add: scenario_absent_def eval_defs)

lemma absent_type_on_loaded_snapshot_example:
  "preprocess_course (course ''c1'' Missing)
     = preprocess_course ((course ''c1'' Missing)\<lparr>cd_typeRessource := Val ''other''\<rparr>)
   \<and> typeRessource (preprocess_course (course ''c1'' Missing)) = ''other''
   \<and> (\<exists>prefs_df courses_df. load_data scenario_absent = Inr (prefs_df, courses_df)
         \<and> preprocess_course (course ''c1'' Missing)
             \<in> set (matched_courses (get_user_preferences ''u1'' prefs_df) courses_df))"
proof (rule absent_type_on_loaded_snapshot)
  show "cd_typeRessource (course ''c1'' Missing) = Missing
        \<or> cd_typeRessource (course ''c1'' Missing) = Null"
    by (simp add: course_def)
  show "course ''c1'' Missing \<in> set (db_courses scenario_absent)"
    by (simp add: scenario_absent_def)
  show "has_column cd_typeRessource (db_courses scenario_absent)"
    by (simp add: scenario_absent_def course_def)
  show "preference ''u1'' (Val ''Other '') \<in> set (db_preferences scenario_absent)"
    by (simp add: scenario_absent_def)
  show "pd_user (preference ''u1'' (Val ''Other '')) = ''u1''"
    by (simp add: preference_def)
  show "pd_typeRessource (preference ''u1'' (Val ''Other '')) = Val ''Other ''"
    by (simp add: preference_def)
  show "normalize_pref ''Other '' = ''other''"
    by (simp add: normalize_pref_def eval_defs)
qed

lemma absent_type_example:
  "get_recommendations scenario_absent ''u1'' 10 =
     Inr \<lparr>user_id = ''u1'', preferences = [Some ''other''],
          recommendations = [row ''c1'' ''other'', row ''c3'' ''other'']\<rparr>"
  by (simp add: get_recommendations_ok [OF _ _ load_scenario_absent]
      get_user_preferences_def matched_courses_def isin_def row_def)

text \<open>
  Claim C6. A course whose \<^verbatim>\<open>typeRessource\<close> is absent is to be treated as a course of
  the category \<^verbatim>\<open>"other"\<close> and so to match a preference for \<^verbatim>\<open>other\<close>. Line 64 reads
  the column before it fills it: when no course document carries the key, the frame has
  no such column, \<^verbatim>\<open>courses_df['typeRessource']\<close> raises \<^verbatim>\<open>KeyError\<close> before
  \<^verbatim>\<open>fillna('other')\<close> runs, and the request of a user who prefers \<^verbatim>\<open>other\<close> ends with
  status 500 instead of returning the course.
\<close>

theorem absent_type_in_keyless_catalog_is_500:
  "db_courses scenario_all_absent = [course ''c1'' Missing]
   \<and> cd_typeRessource (course ''c1'' Missing) = Missing
   \<and> db_preferences scenario_all_absent = [preference ''u1'' (Val ''other'')]
   \<and> normalize_pref ''other'' = ''other''
   \<and> get_recommendations scenario_all_absent ''u1'' 10 =
     Inl (HTTPException 500 (Wrapped ''Error processing recommendations: ''
            (HTTPException 500 (Wrapped ''Error loading data: '' (KeyError ''typeRessource'')))))
   \<and> http_status (get_recommendations scenario_all_absent ''u1'' 10) = 500"
proof -
  have l: "load_data scenario_all_absent =
      Inl (HTTPException 500 (Wrapped ''Error loading data: '' (KeyError ''typeRessource'')))"
    by (simp add: scenario_all_absent_def load_data_def try_except_def course_def)
  have n: "normalize_pref ''other'' = ''other''"
    by (simp add: normalize_pref_def eval_defs)
  from n show ?thesis
    by (simp add: get_recommendations_load_failure [OF _ _ l])
      (simp add: scenario_all_absent_def course_def)
qed


lemma load_scenario_variant:
  "load_data scenario_variant =
     Inr ([\<lparr>user = ''u1'', pref_typeRessource = Some ''interactive exercice''\<rparr>],
          [row ''c1'' ''interactive exercice''])"
  by (simp add: scenario_variant_def eval_defs)


lemma variant_example:
  "get_recommendations scenario_variant ''u1'' 10 =
     Inr \<lparr>user_id = ''u1'', preferences = [Some ''interactive exercice''],
          recommendations = [row ''c1'' ''interactive exercice'']\<rparr>"
  by (simp add: get_recommendations_ok [OF _ _ load_scenario_variant]
      get_user_preferences_def matched_courses_def isin_def row_def)

lemma load_scenario_order:
  "load_data scenario_order =
     Inr ([\<lparr>user = ''u1'', pref_typeRessource = Some ''quiz''\<rparr>,
           \<lparr>user = ''u1'', pref_typeRessource = Some ''video''\<rparr>],
          [row ''c1'' ''video'', row ''c2'' ''pdf'', row ''c3'' ''quiz'', row ''c4'' ''video''])"
  by (simp add: scenario_order_def eval_defs)

lemma order_example:
  "get_recommendations scenario_order ''u1'' 2 =
     Inr \<lparr>user_id = ''u1'', preferences = [Some ''quiz'', Some ''video''],
          recommendations = [row ''c1'' ''video'', row ''c3'' ''quiz'']\<rparr>"
  by (simp add: get_recommendations_ok [OF _ _ load_scenario_order]
      get_user_preferences_def matched_courses_def isin_def row_def numeral_2_eq_2)

text \<open>When no course matches, the request still succeeds, with no recommendation.\<close>

lemma no_match_is_empty_success:
  assumes "1 \<le> top_n" and "top_n \<le> 50" and "load_data db = Inr (prefs_df, courses_df)"
    and "matched_courses (get_user_preferences uid prefs_df) courses_df = []"
  shows "get_recommendations db uid top_n =
           Inr \<lparr>user_id = uid, preferences = get_user_preferences uid prefs_df,
                recommendations = []\<rparr>"
  using assms by (simp add: get_recommendations_ok)


end
